theory Spec2Isabelle
  imports Main
begin

section \<open>Errors\<close>

text \<open>
  The builder raises \<^verbatim>\<open>new Error(message)\<close> with one of two messages. Calling a
  method on a value that is not a builder object is JavaScript's \<^verbatim>\<open>TypeError\<close>.
\<close>

datatype error = Error string | TypeError

definition order_message :: string where
  "order_message = ''Selector parts should be arranged in the following order: element, id, class, attribute, pseudo-class, pseudo-element''"

definition duplicate_message :: string where
  "duplicate_message = ''Element, id and pseudo-element should not occur more then one time inside the selector''"

section \<open>String and array primitives of the host language\<close>

text \<open>\<^verbatim>\<open>s.startsWith(pat)\<close>, used to define \<^verbatim>\<open>s.includes(pat)\<close>.\<close>

fun starts_with :: "string \<Rightarrow> string \<Rightarrow> bool" where
  "starts_with s [] = True"
| "starts_with [] (p # ps) = False"
| "starts_with (x # xs) (p # ps) = (x = p \<and> starts_with xs ps)"

text \<open>\<^verbatim>\<open>s.includes(pat)\<close>: \<open>pat\<close> occurs in \<open>s\<close> as a contiguous substring.\<close>

fun str_includes :: "string \<Rightarrow> string \<Rightarrow> bool" where
  "str_includes [] pat = (pat = [])"
| "str_includes (x # xs) pat = (starts_with (x # xs) pat \<or> str_includes xs pat)"

text \<open>
  \<^verbatim>\<open>s.match(/[.:#]/)\<close> (and \<^verbatim>\<open>/[.::#]/\<close>, the same character class) is not null:
  some character of \<open>s\<close> is a dot, a colon or a hash.
\<close>

definition match_dot_colon_hash :: "string \<Rightarrow> bool" where
  "match_dot_colon_hash s =
     list_ex (\<lambda>c. c = CHR ''.'' \<or> c = CHR '':'' \<or> c = CHR ''#'') s"

text \<open>
  \<^verbatim>\<open>s.match(/::.*/g)\<close> is not null: \<^verbatim>\<open>.*\<close> also matches the empty string, so the
  pattern matches exactly when two adjacent colons occur in \<open>s\<close>.
\<close>

definition match_double_colon :: "string \<Rightarrow> bool" where
  "match_double_colon s = str_includes s ''::''"

text \<open>\<^verbatim>\<open>s[i]\<close>: the character at \<open>i\<close>, \<open>None\<close> for \<^verbatim>\<open>undefined\<close>.\<close>

definition char_at :: "string \<Rightarrow> nat \<Rightarrow> char option" where
  "char_at s i = (if i < length s then Some (s ! i) else None)"

text \<open>\<^verbatim>\<open>arr.indexOf(x)\<close>: the first index holding \<open>x\<close>, or \<open>-1\<close>.\<close>

fun indexOf :: "string list \<Rightarrow> string \<Rightarrow> int" where
  "indexOf [] x = - 1"
| "indexOf (y # ys) x =
     (if y = x then 0 else (if indexOf ys x = - 1 then - 1 else indexOf ys x + 1))"

text \<open>\<^verbatim>\<open>xs[0]\<close> of an array of numbers: \<open>None\<close> for \<^verbatim>\<open>undefined\<close>.\<close>

fun first :: "int list \<Rightarrow> int option" where
  "first [] = None"
| "first (x # xs) = Some x"

text \<open>
  \<^verbatim>\<open>a < b\<close> on values that are numbers or \<^verbatim>\<open>undefined\<close>: \<^verbatim>\<open>undefined\<close> converts
  to NaN, and every comparison with NaN is false.
\<close>

fun js_less :: "int option \<Rightarrow> int option \<Rightarrow> bool" where
  "js_less (Some a) (Some b) = (a < b)"
| "js_less _ _ = False"

text \<open>\<^verbatim>\<open>arr.join(sep)\<close> on an array of strings.\<close>

fun join :: "string \<Rightarrow> string list \<Rightarrow> string" where
  "join sep [] = []"
| "join sep [x] = x"
| "join sep (x # y # ys) = x @ sep @ join sep (y # ys)"

section \<open>checkOrder\<close>

text \<open>
  Each of the six index arrays is filled by one \<^verbatim>\<open>if\<close> of the \<^verbatim>\<open>forEach\<close> body: for
  every entry of \<open>arr\<close>, in order, that passes the test, \<^verbatim>\<open>arr.indexOf\<close> of the entry
  is pushed.
\<close>

definition indexes_where :: "(string \<Rightarrow> bool) \<Rightarrow> string list \<Rightarrow> int list" where
  "indexes_where test arr = map (indexOf arr) (filter test arr)"

definition idIndexes :: "string list \<Rightarrow> int list" where
  "idIndexes arr = indexes_where (\<lambda>s. str_includes s ''#'') arr"

definition elemIndexes :: "string list \<Rightarrow> int list" where
  "elemIndexes arr = indexes_where (\<lambda>s. \<not> match_dot_colon_hash s) arr"

definition classIndexes :: "string list \<Rightarrow> int list" where
  "classIndexes arr = indexes_where (\<lambda>s. str_includes s ''.'') arr"

definition attrIndexes :: "string list \<Rightarrow> int list" where
  "attrIndexes arr = indexes_where (\<lambda>s. str_includes s ''['') arr"

definition pseudoClassIndexes :: "string list \<Rightarrow> int list" where
  "pseudoClassIndexes arr =
     indexes_where (\<lambda>s. char_at s 0 = Some CHR '':'' \<and> char_at s 1 \<noteq> Some CHR '':'') arr"

definition pseudoElemIndexes :: "string list \<Rightarrow> int list" where
  "pseudoElemIndexes arr = indexes_where match_double_colon arr"

definition checkOrder :: "string list \<Rightarrow> error + unit" where
  "checkOrder arr =
     (if js_less (first (attrIndexes arr)) (first (classIndexes arr))
       \<or> js_less (first (pseudoClassIndexes arr)) (first (classIndexes arr))
       \<or> js_less (first (classIndexes arr)) (first (idIndexes arr))
       \<or> js_less (first (classIndexes arr)) (first (elemIndexes arr))
       \<or> js_less (first (pseudoClassIndexes arr)) (first (attrIndexes arr))
       \<or> js_less (first (pseudoClassIndexes arr)) (first (idIndexes arr))
       \<or> js_less (first (pseudoElemIndexes arr)) (first (pseudoClassIndexes arr))
       \<or> js_less (first (pseudoElemIndexes arr)) (first (idIndexes arr))
       \<or> js_less (first (idIndexes arr)) (first (elemIndexes arr))
      then Inl (Error order_message)
      else Inr ())"

section \<open>The class MyCssSelector\<close>

text \<open>
  Builders are objects with identity: \<^verbatim>\<open>combine\<close> calls \<^verbatim>\<open>stringify\<close> on its two
  operands, which mutates them. The store is the list of all objects allocated so far, a
  reference is an index into it, and \<^verbatim>\<open>new MyCssSelector()\<close> appends a fresh object.
  The two arrays of an object are never shared with another object, so they are fields
  holding values.
\<close>

record MyCssSelector =
  selectorsChain :: "string list"
  combinedSelectors :: "string list"

type_synonym ref = nat
type_synonym heap = "MyCssSelector list"

definition new_MyCssSelector :: "heap \<Rightarrow> ref \<times> heap" where
  "new_MyCssSelector h =
     (length h, h @ [\<lparr>selectorsChain = [], combinedSelectors = []\<rparr>])"

text \<open>
  The common tail of the six fragment methods:
  \<^verbatim>\<open>this.selectorsChain.push(x); checkOrder(this.selectorsChain); return this;\<close>.
  When \<^verbatim>\<open>checkOrder\<close> throws, the pushed fragment stays in the chain.
\<close>

definition push_and_check :: "string \<Rightarrow> ref \<Rightarrow> heap \<Rightarrow> (error + ref) \<times> heap" where
  "push_and_check x this h =
     (let h1 = h[this := (h ! this)\<lparr>selectorsChain := selectorsChain (h ! this) @ [x]\<rparr>]
      in case checkOrder (selectorsChain (h1 ! this)) of
           Inl e \<Rightarrow> (Inl e, h1)
         | Inr u \<Rightarrow> (Inr this, h1))"

definition MyCssSelector_element :: "string \<Rightarrow> ref \<Rightarrow> heap \<Rightarrow> (error + ref) \<times> heap" where
  "MyCssSelector_element val this h =
     (if length h \<le> this then (Inl TypeError, h)
      else if list_ex (\<lambda>sel. \<not> match_dot_colon_hash sel) (selectorsChain (h ! this))
      then (Inl (Error duplicate_message), h)
      else push_and_check val this h)"

definition MyCssSelector_id :: "string \<Rightarrow> ref \<Rightarrow> heap \<Rightarrow> (error + ref) \<times> heap" where
  "MyCssSelector_id val this h =
     (if length h \<le> this then (Inl TypeError, h)
      else if list_ex (\<lambda>sel. str_includes sel ''#'') (selectorsChain (h ! this))
      then (Inl (Error duplicate_message), h)
      else push_and_check (''#'' @ val) this h)"

definition MyCssSelector_class :: "string \<Rightarrow> ref \<Rightarrow> heap \<Rightarrow> (error + ref) \<times> heap" where
  "MyCssSelector_class val this h =
     (if length h \<le> this then (Inl TypeError, h)
      else push_and_check (''.'' @ val) this h)"

definition MyCssSelector_attr :: "string \<Rightarrow> ref \<Rightarrow> heap \<Rightarrow> (error + ref) \<times> heap" where
  "MyCssSelector_attr val this h =
     (if length h \<le> this then (Inl TypeError, h)
      else push_and_check (''['' @ val @ '']'') this h)"

definition MyCssSelector_pseudoClass :: "string \<Rightarrow> ref \<Rightarrow> heap \<Rightarrow> (error + ref) \<times> heap" where
  "MyCssSelector_pseudoClass val this h =
     (if length h \<le> this then (Inl TypeError, h)
      else push_and_check ('':'' @ val) this h)"

definition MyCssSelector_pseudoElement :: "string \<Rightarrow> ref \<Rightarrow> heap \<Rightarrow> (error + ref) \<times> heap" where
  "MyCssSelector_pseudoElement val this h =
     (if length h \<le> this then (Inl TypeError, h)
      else if list_ex (\<lambda>sel. str_includes sel ''::'') (selectorsChain (h ! this))
      then (Inl (Error duplicate_message), h)
      else push_and_check (''::'' @ val) this h)"

definition MyCssSelector_stringify :: "ref \<Rightarrow> heap \<Rightarrow> (error + string) \<times> heap" where
  "MyCssSelector_stringify this h =
     (if length h \<le> this then (Inl TypeError, h)
      else if length (combinedSelectors (h ! this)) \<noteq> 0
      then (Inr (join '' '' (combinedSelectors (h ! this))), h)
      else (Inr (join '''' (selectorsChain (h ! this))),
            h[this := (h ! this)\<lparr>selectorsChain := []\<rparr>]))"

text \<open>
  \<^verbatim>\<open>this.combinedSelectors.push(selector1.stringify(), combinator, selector2.stringify())\<close>:
  the arguments are evaluated from left to right, then the three strings are appended to
  the receiver's array.
\<close>

definition MyCssSelector_combine ::
  "ref \<Rightarrow> string \<Rightarrow> ref \<Rightarrow> ref \<Rightarrow> heap \<Rightarrow> (error + ref) \<times> heap" where
  "MyCssSelector_combine selector1 combinator selector2 this h =
     (if length h \<le> this then (Inl TypeError, h)
      else case MyCssSelector_stringify selector1 h of
        (Inl e, h1) \<Rightarrow> (Inl e, h1)
      | (Inr s1, h1) \<Rightarrow>
          (case MyCssSelector_stringify selector2 h1 of
             (Inl e, h2) \<Rightarrow> (Inl e, h2)
           | (Inr s2, h2) \<Rightarrow>
               (Inr this,
                h2[this := (h2 ! this)\<lparr>combinedSelectors :=
                     combinedSelectors (h2 ! this) @ [s1, combinator, s2]\<rparr>])))"

section \<open>The facade cssSelectorBuilder\<close>

text \<open>
  Calling a method on the result of an expression: when the expression threw, the
  exception propagates and the method is not called.
\<close>

definition call ::
  "(error + 'a) \<times> heap \<Rightarrow> ('a \<Rightarrow> heap \<Rightarrow> (error + 'b) \<times> heap) \<Rightarrow> (error + 'b) \<times> heap" where
  "call res m = (case res of (Inl e, h) \<Rightarrow> (Inl e, h) | (Inr r, h) \<Rightarrow> m r h)"

definition cssSelectorBuilder_element :: "string \<Rightarrow> heap \<Rightarrow> (error + ref) \<times> heap" where
  "cssSelectorBuilder_element val h =
     (case new_MyCssSelector h of (r, h1) \<Rightarrow> MyCssSelector_element val r h1)"

definition cssSelectorBuilder_id :: "string \<Rightarrow> heap \<Rightarrow> (error + ref) \<times> heap" where
  "cssSelectorBuilder_id val h =
     (case new_MyCssSelector h of (r, h1) \<Rightarrow> MyCssSelector_id val r h1)"

definition cssSelectorBuilder_class :: "string \<Rightarrow> heap \<Rightarrow> (error + ref) \<times> heap" where
  "cssSelectorBuilder_class val h =
     (case new_MyCssSelector h of (r, h1) \<Rightarrow> MyCssSelector_class val r h1)"

definition cssSelectorBuilder_attr :: "string \<Rightarrow> heap \<Rightarrow> (error + ref) \<times> heap" where
  "cssSelectorBuilder_attr val h =
     (case new_MyCssSelector h of (r, h1) \<Rightarrow> MyCssSelector_attr val r h1)"

definition cssSelectorBuilder_pseudoClass :: "string \<Rightarrow> heap \<Rightarrow> (error + ref) \<times> heap" where
  "cssSelectorBuilder_pseudoClass val h =
     (case new_MyCssSelector h of (r, h1) \<Rightarrow> MyCssSelector_pseudoClass val r h1)"

definition cssSelectorBuilder_pseudoElement :: "string \<Rightarrow> heap \<Rightarrow> (error + ref) \<times> heap" where
  "cssSelectorBuilder_pseudoElement val h =
     (case new_MyCssSelector h of (r, h1) \<Rightarrow> MyCssSelector_pseudoElement val r h1)"

definition cssSelectorBuilder_combine ::
  "ref \<Rightarrow> string \<Rightarrow> ref \<Rightarrow> heap \<Rightarrow> (error + ref) \<times> heap" where
  "cssSelectorBuilder_combine selector1 combinator selector2 h =
     (case new_MyCssSelector h of
        (r, h1) \<Rightarrow> MyCssSelector_combine selector1 combinator selector2 r h1)"

definition cssSelectorBuilder_stringify :: "heap \<Rightarrow> (error + string) \<times> heap" where
  "cssSelectorBuilder_stringify h =
     (case new_MyCssSelector h of (r, h1) \<Rightarrow> MyCssSelector_stringify r h1)"

section \<open>Values without selector punctuation\<close>

text \<open>
  The four characters the tests of \<^verbatim>\<open>checkOrder\<close> look for inside a fragment. An
  identifier contains none of them.
\<close>

definition selector_symbols :: "char set" where
  "selector_symbols = {CHR ''.'', CHR '':'', CHR ''#'', CHR ''[''}"

section \<open>Facts about the primitives\<close>

lemmas index_defs =
  idIndexes_def elemIndexes_def classIndexes_def attrIndexes_def pseudoClassIndexes_def
  pseudoElemIndexes_def indexes_where_def

lemmas method_defs =
  MyCssSelector_element_def MyCssSelector_id_def MyCssSelector_class_def
  MyCssSelector_attr_def MyCssSelector_pseudoClass_def MyCssSelector_pseudoElement_def
  MyCssSelector_stringify_def push_and_check_def

lemmas facade_defs =
  cssSelectorBuilder_element_def cssSelectorBuilder_id_def cssSelectorBuilder_class_def
  cssSelectorBuilder_attr_def cssSelectorBuilder_pseudoClass_def
  cssSelectorBuilder_pseudoElement_def cssSelectorBuilder_combine_def
  cssSelectorBuilder_stringify_def new_MyCssSelector_def call_def

lemmas eval_defs =
  checkOrder_def index_defs match_dot_colon_hash_def match_double_colon_def char_at_def

lemma messages_differ: "order_message \<noteq> duplicate_message"
  by (simp add: order_message_def duplicate_message_def)

lemma starts_with_notin: "c \<notin> set s \<Longrightarrow> \<not> starts_with s (c # t)"
  by (cases s) auto

lemma str_includes_notin: "c \<notin> set s \<Longrightarrow> \<not> str_includes s (c # t)"
  by (induction s) (auto simp: starts_with_notin)

lemma char_at_Cons_0: "char_at (x # s) 0 = Some x"
  by (simp add: char_at_def)

lemma char_at_Cons_1: "char_at (x # s) 1 = char_at s 0"
  by (simp add: char_at_def)

lemma char_at_notin: "c \<notin> set s \<Longrightarrow> char_at s 0 \<noteq> Some c"
  by (cases s) (auto simp: char_at_def)

lemma neq_Cons_notin: "c \<notin> set s \<Longrightarrow> s \<noteq> c # t"
  by auto

lemma selector_symbols_notin:
  assumes "set v \<inter> selector_symbols = {}"
  shows "CHR ''.'' \<notin> set v" and "CHR '':'' \<notin> set v"
    and "CHR ''#'' \<notin> set v" and "CHR ''['' \<notin> set v"
  using assms by (auto simp: selector_symbols_def)

lemma indexOf_bounds: "x \<in> set xs \<Longrightarrow> 0 \<le> indexOf xs x \<and> indexOf xs x < int (length xs)"
  by (induction xs) auto

lemma indexOf_append_in: "x \<in> set xs \<Longrightarrow> indexOf (xs @ ys) x = indexOf xs x"
  by (induction xs) auto

lemma indexOf_append_last: "x \<notin> set xs \<Longrightarrow> indexOf (xs @ [x]) x = int (length xs)"
  by (induction xs) auto


lemma str_includes_singleton: "str_includes s [c] = (c \<in> set s)"
  by (induction s) auto

lemma join_empty_sep: "join [] xs = concat xs"
  by (induction "[] :: string" xs rule: join.induct) auto

lemma match_dot_colon_hash_set:
  "match_dot_colon_hash s = (CHR ''.'' \<in> set s \<or> CHR '':'' \<in> set s \<or> CHR ''#'' \<in> set s)"
  by (auto simp: match_dot_colon_hash_def list_ex_iff)

section \<open>stringify\<close>

lemma stringify_plain:
  assumes "this < length h" and "combinedSelectors (h ! this) = []"
  shows "MyCssSelector_stringify this h =
           (Inr (concat (selectorsChain (h ! this))),
            h[this := (h ! this)\<lparr>selectorsChain := []\<rparr>])"
  using assms by (simp add: MyCssSelector_stringify_def join_empty_sep)

lemma stringify_combined:
  assumes "this < length h" and "combinedSelectors (h ! this) \<noteq> []"
  shows "MyCssSelector_stringify this h = (Inr (join '' '' (combinedSelectors (h ! this))), h)"
  using assms by (simp add: MyCssSelector_stringify_def)

lemma stringify_combined_funpow:
  assumes "this < length h" and "combinedSelectors (h ! this) \<noteq> []"
  shows "((\<lambda>h'. snd (MyCssSelector_stringify this h')) ^^ n) h = h"
  using assms by (induction n) (simp_all add: stringify_combined)

text \<open>
  Claim C5. On a builder whose combined-output buffer is empty, \<^verbatim>\<open>stringify()\<close> returns
  the fragments of the chain concatenated in append order, without separators, and leaves
  the builder with an empty chain; a second \<^verbatim>\<open>stringify()\<close> on that builder, with
  nothing appended in between, returns the empty string.
\<close>

theorem stringify_clears_chain:
  assumes "this < length h" and "combinedSelectors (h ! this) = []"
  shows "MyCssSelector_stringify this h =
           (Inr (concat (selectorsChain (h ! this))),
            h[this := (h ! this)\<lparr>selectorsChain := []\<rparr>])
         \<and> fst (MyCssSelector_stringify this (snd (MyCssSelector_stringify this h))) = Inr []"
  using assms by (simp add: stringify_plain)

theorem stringify_clears_chain_witness:
  "(0::nat) < length [\<lparr>selectorsChain = [''#main'', ''.x''], combinedSelectors = []\<rparr>]
   \<and> combinedSelectors ([\<lparr>selectorsChain = [''#main'', ''.x''], combinedSelectors = []\<rparr>] ! 0) = []
   \<and> MyCssSelector_stringify 0 [\<lparr>selectorsChain = [''#main'', ''.x''], combinedSelectors = []\<rparr>]
       = (Inr ''#main.x'', [\<lparr>selectorsChain = [], combinedSelectors = []\<rparr>])
   \<and> fst (MyCssSelector_stringify 0 [\<lparr>selectorsChain = [], combinedSelectors = []\<rparr>]) = Inr []"
  using stringify_clears_chain
          [of 0 "[\<lparr>selectorsChain = [''#main'', ''.x''], combinedSelectors = []\<rparr>]"]
  by (simp add: MyCssSelector_stringify_def)

text \<open>
  Claim C6. On a builder whose combined-output buffer is not empty, \<^verbatim>\<open>stringify()\<close>
  is idempotent: after any number \<open>n\<close> of earlier \<^verbatim>\<open>stringify()\<close> calls on it, the next
  call returns the same string, the buffer joined by single spaces, and the store, hence
  the buffer, is as it was before the first call.
\<close>

theorem stringify_combined_idempotent:
  assumes "this < length h" and "combinedSelectors (h ! this) \<noteq> []"
  shows "MyCssSelector_stringify this
           (((\<lambda>h'. snd (MyCssSelector_stringify this h')) ^^ n) h)
         = (Inr (join '' '' (combinedSelectors (h ! this))), h)"
  using assms by (simp add: stringify_combined_funpow stringify_combined)

theorem stringify_combined_idempotent_witness:
  "(0::nat) < length [\<lparr>selectorsChain = [], combinedSelectors = [''div'', ''+'', ''p'']\<rparr>]
   \<and> combinedSelectors ([\<lparr>selectorsChain = [], combinedSelectors = [''div'', ''+'', ''p'']\<rparr>] ! 0) \<noteq> []
   \<and> MyCssSelector_stringify 0
        (snd (MyCssSelector_stringify 0
           [\<lparr>selectorsChain = [], combinedSelectors = [''div'', ''+'', ''p'']\<rparr>]))
       = (Inr ''div + p'', [\<lparr>selectorsChain = [], combinedSelectors = [''div'', ''+'', ''p'']\<rparr>])"
  using stringify_combined_idempotent
          [of 0 "[\<lparr>selectorsChain = [], combinedSelectors = [''div'', ''+'', ''p'']\<rparr>]" 1]
  by (simp add: MyCssSelector_stringify_def)

section \<open>Duplicate checks\<close>

lemma checkOrder_cases:
  "checkOrder arr = Inl (Error order_message) \<or> checkOrder arr = Inr ()"
  by (simp add: checkOrder_def)

lemma push_and_check_not_duplicate:
  "fst (push_and_check x this h) \<noteq> Inl (Error duplicate_message)"
  using checkOrder_cases
    [of "selectorsChain
          (h[this := (h ! this)\<lparr>selectorsChain := selectorsChain (h ! this) @ [x]\<rparr>] ! this)"]
  by (auto simp: push_and_check_def Let_def messages_differ)

text \<open>
  Claim C2, as the code has it. \<^verbatim>\<open>element(value)\<close> raises the duplicate error exactly
  when the chain already holds a fragment with none of the characters \<open>.\<close>, \<open>:\<close> and
  \<open>#\<close>, as every element fragment with an identifier value is; it does so before
  anything is pushed or re-validated, so the store is unchanged. A chain that holds only
  id or pseudo-element fragments does not raise it.
\<close>

theorem element_duplicate_iff:
  assumes "this < length h"
  shows "(fst (MyCssSelector_element v this h) = Inl (Error duplicate_message))
           = list_ex (\<lambda>sel. CHR ''.'' \<notin> set sel \<and> CHR '':'' \<notin> set sel \<and> CHR ''#'' \<notin> set sel)
               (selectorsChain (h ! this))
         \<and> (fst (MyCssSelector_element v this h) = Inl (Error duplicate_message)
              \<longrightarrow> snd (MyCssSelector_element v this h) = h)"
  using assms push_and_check_not_duplicate [of v this h]
  by (auto simp: MyCssSelector_element_def match_dot_colon_hash_set list_ex_iff)

theorem element_duplicate_iff_witness:
  "(0::nat) < length [\<lparr>selectorsChain = [''table''], combinedSelectors = []\<rparr>]
   \<and> list_ex (\<lambda>sel. CHR ''.'' \<notin> set sel \<and> CHR '':'' \<notin> set sel \<and> CHR ''#'' \<notin> set sel)
        (selectorsChain ([\<lparr>selectorsChain = [''table''], combinedSelectors = []\<rparr>] ! 0))
   \<and> MyCssSelector_element ''div'' 0 [\<lparr>selectorsChain = [''table''], combinedSelectors = []\<rparr>]
       = (Inl (Error duplicate_message),
          [\<lparr>selectorsChain = [''table''], combinedSelectors = []\<rparr>])"
  using element_duplicate_iff
          [of 0 "[\<lparr>selectorsChain = [''table''], combinedSelectors = []\<rparr>]" "''div''"]
  by (simp add: MyCssSelector_element_def match_dot_colon_hash_def)

text \<open>
  Claim C2 as stated fails on a chain that holds an id, and on one that holds a
  pseudo-element: after \<^verbatim>\<open>id('main')\<close>, \<^verbatim>\<open>element('a')\<close> pushes the fragment and fails
  in \<^verbatim>\<open>checkOrder\<close> with the order message, not with the duplicate message; after
  \<^verbatim>\<open>pseudoElement('after')\<close>, \<^verbatim>\<open>element('a')\<close> raises nothing at all.
\<close>

theorem element_after_id_or_pseudoElement:
  "cssSelectorBuilder_id ''main'' []
     = (Inr 0, [\<lparr>selectorsChain = [''#main''], combinedSelectors = []\<rparr>])
   \<and> MyCssSelector_element ''a'' 0 [\<lparr>selectorsChain = [''#main''], combinedSelectors = []\<rparr>]
     = (Inl (Error order_message),
        [\<lparr>selectorsChain = [''#main'', ''a''], combinedSelectors = []\<rparr>])
   \<and> Error order_message \<noteq> Error duplicate_message
   \<and> cssSelectorBuilder_pseudoElement ''after'' []
     = (Inr 0, [\<lparr>selectorsChain = [''::after''], combinedSelectors = []\<rparr>])
   \<and> MyCssSelector_element ''a'' 0 [\<lparr>selectorsChain = [''::after''], combinedSelectors = []\<rparr>]
     = (Inr 0, [\<lparr>selectorsChain = [''::after'', ''a''], combinedSelectors = []\<rparr>])"
  by (simp add: facade_defs method_defs eval_defs messages_differ)

text \<open>
  Claim C7. On every builder, appending a fragment of a category limited to one occurrence
  to a chain that already holds a fragment of that category raises the duplicate error and
  changes nothing: \<^verbatim>\<open>element\<close> when the chain holds an element fragment \<open>e\<close> (an
  identifier, so without \<open>.\<close>, \<open>:\<close> and \<open>#\<close>), \<^verbatim>\<open>id\<close> when it holds an id fragment
  \<open>#i\<close>, \<^verbatim>\<open>pseudoElement\<close> when it holds a pseudo-element fragment \<open>::p\<close>.
\<close>

theorem limited_category_twice:
  assumes "this < length h"
  shows "(e \<in> set (selectorsChain (h ! this))
            \<and> CHR ''.'' \<notin> set e \<and> CHR '':'' \<notin> set e \<and> CHR ''#'' \<notin> set e
          \<longrightarrow> MyCssSelector_element v this h = (Inl (Error duplicate_message), h))
       \<and> (''#'' @ i \<in> set (selectorsChain (h ! this))
          \<longrightarrow> MyCssSelector_id v this h = (Inl (Error duplicate_message), h))
       \<and> (''::'' @ p \<in> set (selectorsChain (h ! this))
          \<longrightarrow> MyCssSelector_pseudoElement v this h = (Inl (Error duplicate_message), h))"
proof (intro conjI impI)
  assume "e \<in> set (selectorsChain (h ! this))
            \<and> CHR ''.'' \<notin> set e \<and> CHR '':'' \<notin> set e \<and> CHR ''#'' \<notin> set e"
  then have "list_ex (\<lambda>sel. \<not> match_dot_colon_hash sel) (selectorsChain (h ! this))"
    by (auto simp: list_ex_iff match_dot_colon_hash_set)
  then show "MyCssSelector_element v this h = (Inl (Error duplicate_message), h)"
    using assms by (simp add: MyCssSelector_element_def)
next
  assume "''#'' @ i \<in> set (selectorsChain (h ! this))"
  then have "list_ex (\<lambda>sel. str_includes sel ''#'') (selectorsChain (h ! this))"
    unfolding list_ex_iff by (rule bexI [rotated]) simp
  then show "MyCssSelector_id v this h = (Inl (Error duplicate_message), h)"
    using assms by (simp add: MyCssSelector_id_def)
next
  assume "''::'' @ p \<in> set (selectorsChain (h ! this))"
  then have "list_ex (\<lambda>sel. str_includes sel ''::'') (selectorsChain (h ! this))"
    unfolding list_ex_iff by (rule bexI [rotated]) simp
  then show "MyCssSelector_pseudoElement v this h = (Inl (Error duplicate_message), h)"
    using assms by (simp add: MyCssSelector_pseudoElement_def)
qed

theorem limited_category_twice_witness:
  "call (cssSelectorBuilder_id ''id1'' []) (MyCssSelector_id ''id2'')
     = (Inl (Error duplicate_message), [\<lparr>selectorsChain = [''#id1''], combinedSelectors = []\<rparr>])
   \<and> (0::nat) < length [\<lparr>selectorsChain = [''table'', ''#id1'', ''::after''],
                          combinedSelectors = []\<rparr>]
   \<and> ''table'' \<in> set (selectorsChain
        ([\<lparr>selectorsChain = [''table'', ''#id1'', ''::after''], combinedSelectors = []\<rparr>] ! 0))
   \<and> CHR ''.'' \<notin> set ''table'' \<and> CHR '':'' \<notin> set ''table'' \<and> CHR ''#'' \<notin> set ''table''
   \<and> ''#'' @ ''id1'' \<in> set (selectorsChain
        ([\<lparr>selectorsChain = [''table'', ''#id1'', ''::after''], combinedSelectors = []\<rparr>] ! 0))
   \<and> ''::'' @ ''after'' \<in> set (selectorsChain
        ([\<lparr>selectorsChain = [''table'', ''#id1'', ''::after''], combinedSelectors = []\<rparr>] ! 0))
   \<and> MyCssSelector_element ''div'' 0
        [\<lparr>selectorsChain = [''table'', ''#id1'', ''::after''], combinedSelectors = []\<rparr>]
     = (Inl (Error duplicate_message),
        [\<lparr>selectorsChain = [''table'', ''#id1'', ''::after''], combinedSelectors = []\<rparr>])
   \<and> MyCssSelector_id ''id2'' 0
        [\<lparr>selectorsChain = [''table'', ''#id1'', ''::after''], combinedSelectors = []\<rparr>]
     = (Inl (Error duplicate_message),
        [\<lparr>selectorsChain = [''table'', ''#id1'', ''::after''], combinedSelectors = []\<rparr>])
   \<and> MyCssSelector_pseudoElement ''before'' 0
        [\<lparr>selectorsChain = [''table'', ''#id1'', ''::after''], combinedSelectors = []\<rparr>]
     = (Inl (Error duplicate_message),
        [\<lparr>selectorsChain = [''table'', ''#id1'', ''::after''], combinedSelectors = []\<rparr>])"
proof -
  let ?h = "[\<lparr>selectorsChain = [''table'', ''#id1'', ''::after''], combinedSelectors = []\<rparr>]"
  have first_id: "cssSelectorBuilder_id ''id1'' []
      = (Inr 0, [\<lparr>selectorsChain = [''#id1''], combinedSelectors = []\<rparr>])"
    by (simp add: facade_defs method_defs eval_defs)
  have second_id: "MyCssSelector_id ''id2'' 0 [\<lparr>selectorsChain = [''#id1''], combinedSelectors = []\<rparr>]
      = (Inl (Error duplicate_message), [\<lparr>selectorsChain = [''#id1''], combinedSelectors = []\<rparr>])"
    using limited_category_twice
      [of 0 "[\<lparr>selectorsChain = [''#id1''], combinedSelectors = []\<rparr>]" "[]" "''id2''" "''id1''" "[]"]
    by simp
  have valid: "(0::nat) < length ?h"
    by simp
  from limited_category_twice [OF valid, of "''table''" "''div''" "''id1''" "''after''"]
    limited_category_twice [OF valid, of "''table''" "''id2''" "''id1''" "''after''"]
    limited_category_twice [OF valid, of "''table''" "''before''" "''id1''" "''after''"]
  have "MyCssSelector_element ''div'' 0 ?h = (Inl (Error duplicate_message), ?h)"
    and "MyCssSelector_id ''id2'' 0 ?h = (Inl (Error duplicate_message), ?h)"
    and "MyCssSelector_pseudoElement ''before'' 0 ?h = (Inl (Error duplicate_message), ?h)"
    by simp_all
  with first_id second_id show ?thesis
    by (simp add: call_def)
qed

section \<open>Order validation\<close>

lemma first_indexes_where_bound:
  assumes "x \<in> set xs" and "test x"
  shows "\<exists>i. first (indexes_where test (xs @ ys)) = Some i \<and> i < int (length xs)"
proof -
  from assms have "filter test xs \<noteq> []"
    by (auto simp: filter_empty_conv)
  then obtain y zs where f: "filter test xs = y # zs"
    by (cases "filter test xs") auto
  then have "y \<in> set (filter test xs)"
    by simp
  then have y: "y \<in> set xs"
    by simp
  have "first (indexes_where test (xs @ ys)) = Some (indexOf (xs @ ys) y)"
    by (simp add: indexes_where_def f)
  with y show ?thesis
    by (simp add: indexOf_append_in indexOf_bounds)
qed

lemma first_indexes_where_last:
  assumes "\<forall>x \<in> set xs. \<not> test x" and "test w"
  shows "first (indexes_where test (xs @ [w])) = Some (int (length xs))"
proof -
  from assms have "filter test xs = []" and "w \<notin> set xs"
    by (auto simp: filter_empty_conv)
  with assms(2) show ?thesis
    by (simp add: indexes_where_def indexOf_append_last)
qed

lemma checkOrder_class_before_element:
  assumes "x \<in> set xs" and "str_includes x ''.''"
    and "\<forall>s \<in> set xs. match_dot_colon_hash s" and "\<not> match_dot_colon_hash w"
  shows "checkOrder (xs @ [w]) = Inl (Error order_message)"
proof -
  from first_indexes_where_bound [of x xs "\<lambda>s. str_includes s ''.''" "[w]"] assms(1,2)
  obtain i where i: "first (classIndexes (xs @ [w])) = Some i" "i < int (length xs)"
    by (auto simp: classIndexes_def)
  from first_indexes_where_last [of xs "\<lambda>s. \<not> match_dot_colon_hash s" w] assms(3,4)
  have "first (elemIndexes (xs @ [w])) = Some (int (length xs))"
    by (simp add: elemIndexes_def)
  with i have "js_less (first (classIndexes (xs @ [w]))) (first (elemIndexes (xs @ [w])))"
    by simp
  then show ?thesis
    by (simp add: checkOrder_def)
qed

lemma checkOrder_canonical:
  assumes "set e \<inter> selector_symbols = {}" and "set i \<inter> selector_symbols = {}"
    and "set c \<inter> selector_symbols = {}" and "set a \<inter> selector_symbols = {}"
    and "set p \<inter> selector_symbols = {}" and "set q \<inter> selector_symbols = {}"
  shows "checkOrder [e] = Inr ()"
    and "checkOrder [e, ''#'' @ i] = Inr ()"
    and "checkOrder [e, ''#'' @ i, ''.'' @ c] = Inr ()"
    and "checkOrder [e, ''#'' @ i, ''.'' @ c, ''['' @ a @ '']''] = Inr ()"
    and "checkOrder [e, ''#'' @ i, ''.'' @ c, ''['' @ a @ '']'', '':'' @ p] = Inr ()"
    and "checkOrder [e, ''#'' @ i, ''.'' @ c, ''['' @ a @ '']'', '':'' @ p, ''::'' @ q] = Inr ()"
  using assms [THEN selector_symbols_notin(1)] assms [THEN selector_symbols_notin(2)]
    assms [THEN selector_symbols_notin(3)] assms [THEN selector_symbols_notin(4)]
  by (simp_all add: checkOrder_def index_defs match_dot_colon_hash_set match_double_colon_def
      str_includes_singleton str_includes_notin starts_with_notin char_at_Cons_0 char_at_Cons_1
      char_at_notin neq_Cons_notin)

text \<open>
  An absent category never takes part in a comparison: its first index is
  \<^verbatim>\<open>undefined\<close>, and no comparison with it holds.
\<close>

lemma absent_category_skipped: "\<not> js_less (first []) b" and "\<not> js_less a (first [])"
  by (cases a; simp)+

lemma id_class_class_example:
  "call (call (call (cssSelectorBuilder_id ''main'' h) (MyCssSelector_class ''container''))
      (MyCssSelector_class ''editable'')) MyCssSelector_stringify
   = (Inr ''#main.container.editable'', h @ [\<lparr>selectorsChain = [], combinedSelectors = []\<rparr>])"
  by (simp add: facade_defs method_defs eval_defs nth_append)

text \<open>
  Claim C1 at \<^verbatim>\<open>pseudoClass('hover').element('a')\<close>. The chain holds a pseudo-class at
  position 0 and an element at position 1, an inversion of the order the message of
  \<^verbatim>\<open>checkOrder\<close> names; \<^verbatim>\<open>checkOrder\<close> compares nine of the fifteen pairs of
  categories, the pair of pseudo-class and element is not among them, and the chain is
  accepted: both calls return the builder and \<^verbatim>\<open>stringify()\<close> gives \<^verbatim>\<open>:hovera\<close>.
\<close>

theorem pseudoClass_then_element_accepted:
  "cssSelectorBuilder_pseudoClass ''hover'' []
     = (Inr 0, [\<lparr>selectorsChain = ['':hover''], combinedSelectors = []\<rparr>])
   \<and> MyCssSelector_element ''a'' 0 [\<lparr>selectorsChain = ['':hover''], combinedSelectors = []\<rparr>]
     = (Inr 0, [\<lparr>selectorsChain = ['':hover'', ''a''], combinedSelectors = []\<rparr>])
   \<and> pseudoClassIndexes ['':hover'', ''a''] = [0]
   \<and> elemIndexes ['':hover'', ''a''] = [1]
   \<and> checkOrder ['':hover'', ''a''] = Inr ()
   \<and> fst (MyCssSelector_stringify 0
            [\<lparr>selectorsChain = ['':hover'', ''a''], combinedSelectors = []\<rparr>])
     = Inr '':hovera''"
  by (simp add: facade_defs method_defs eval_defs)

text \<open>
  Claim C8 at \<^verbatim>\<open>id('main').attr('href')\<close>. The chain holds an id and then an attribute,
  in order, and no element. The fragment \<^verbatim>\<open>[href]\<close> has none of the characters the
  element test looks for, so \<^verbatim>\<open>checkOrder\<close> also counts it as an element at position 1,
  finds the id at position 0 before it, and throws.
\<close>

theorem id_then_attr_rejected:
  "cssSelectorBuilder_id ''main'' []
     = (Inr 0, [\<lparr>selectorsChain = [''#main''], combinedSelectors = []\<rparr>])
   \<and> MyCssSelector_attr ''href'' 0 [\<lparr>selectorsChain = [''#main''], combinedSelectors = []\<rparr>]
     = (Inl (Error order_message),
        [\<lparr>selectorsChain = [''#main'', ''[href]''], combinedSelectors = []\<rparr>])
   \<and> idIndexes [''#main'', ''[href]''] = [0]
   \<and> attrIndexes [''#main'', ''[href]''] = [1]
   \<and> elemIndexes [''#main'', ''[href]''] = [1]"
  by (simp add: facade_defs method_defs eval_defs)

text \<open>
  Claim C9. On a builder whose chain holds no fragment that \<^verbatim>\<open>element\<close> takes for an
  element, once \<^verbatim>\<open>class(v)\<close> has returned, \<^verbatim>\<open>element(w)\<close> with a value \<open>w\<close> without
  \<open>.\<close>, \<open>:\<close> and \<open>#\<close> fails with the order error: the class fragment precedes the
  element fragment.
\<close>

theorem class_then_element_order_error:
  assumes "this < length h"
    and "\<not> list_ex (\<lambda>sel. \<not> match_dot_colon_hash sel) (selectorsChain (h ! this))"
    and "\<not> match_dot_colon_hash w"
    and "MyCssSelector_class v this h = (Inr r, h1)"
  shows "fst (MyCssSelector_element w r h1) = Inl (Error order_message)"
proof -
  let ?xs = "selectorsChain (h ! this) @ [''.'' @ v]"
  from assms(1,4) have r: "r = this"
    and h1: "h1 = h[this := (h ! this)\<lparr>selectorsChain := ?xs\<rparr>]"
    by (auto simp: MyCssSelector_class_def push_and_check_def Let_def split: sum.splits)
  from assms(2) have all: "\<forall>s \<in> set ?xs. match_dot_colon_hash s"
    by (auto simp: list_ex_iff match_dot_colon_hash_set)
  have "checkOrder (?xs @ [w]) = Inl (Error order_message)"
    by (rule checkOrder_class_before_element [of "''.'' @ v"]) (use all assms(3) in simp_all)
  with assms(1) all show ?thesis
    by (simp add: r h1 MyCssSelector_element_def push_and_check_def list_ex_iff)
qed

theorem class_then_element_order_error_witness:
  "new_MyCssSelector [] = (0, [\<lparr>selectorsChain = [], combinedSelectors = []\<rparr>])
   \<and> (0::nat) < length [\<lparr>selectorsChain = [], combinedSelectors = []\<rparr>]
   \<and> \<not> list_ex (\<lambda>sel. \<not> match_dot_colon_hash sel)
         (selectorsChain ([\<lparr>selectorsChain = [], combinedSelectors = []\<rparr>] ! 0))
   \<and> \<not> match_dot_colon_hash ''a''
   \<and> MyCssSelector_class ''x'' 0 [\<lparr>selectorsChain = [], combinedSelectors = []\<rparr>]
       = (Inr 0, [\<lparr>selectorsChain = [''.x''], combinedSelectors = []\<rparr>])
   \<and> fst (MyCssSelector_element ''a'' 0 [\<lparr>selectorsChain = [''.x''], combinedSelectors = []\<rparr>])
       = Inl (Error order_message)"
proof -
  have cls: "MyCssSelector_class ''x'' 0 [\<lparr>selectorsChain = [], combinedSelectors = []\<rparr>]
       = (Inr 0, [\<lparr>selectorsChain = [''.x''], combinedSelectors = []\<rparr>])"
    by (simp add: method_defs eval_defs)
  have a: "\<not> match_dot_colon_hash ''a''"
    by (simp add: match_dot_colon_hash_def)
  from class_then_element_order_error [OF _ _ a cls] cls a show ?thesis
    by (simp add: new_MyCssSelector_def)
qed

text \<open>
  Claim C4. One fragment of each category, appended through the facade in the order
  element, id, class, attribute, pseudo-class, pseudo-element, with values that contain
  none of the selector symbols (identifiers are such values): no call throws, and
  \<^verbatim>\<open>stringify()\<close> returns the six fragments, each with its prefix, concatenated in
  append order. The witness is the chain of the specification,
  \<^verbatim>\<open>a#main.x[href]:focus::before\<close>.
\<close>

theorem canonical_order_chain:
  assumes "set e \<inter> selector_symbols = {}" and "set i \<inter> selector_symbols = {}"
    and "set c \<inter> selector_symbols = {}" and "set a \<inter> selector_symbols = {}"
    and "set p \<inter> selector_symbols = {}" and "set q \<inter> selector_symbols = {}"
  shows "fst (call (call (call (call (call (call
           (cssSelectorBuilder_element e h)
           (MyCssSelector_id i)) (MyCssSelector_class c)) (MyCssSelector_attr a))
           (MyCssSelector_pseudoClass p)) (MyCssSelector_pseudoElement q))
           MyCssSelector_stringify)
         = Inr (e @ ''#'' @ i @ ''.'' @ c @ ''['' @ a @ '']'' @ '':'' @ p @ ''::'' @ q)"
  using assms [THEN selector_symbols_notin(2)] assms [THEN selector_symbols_notin(3)]
    checkOrder_canonical [OF assms]
  by (simp add: facade_defs method_defs str_includes_singleton str_includes_notin
      starts_with_notin)

theorem canonical_order_chain_witness:
  "set ''a'' \<inter> selector_symbols = {} \<and> set ''main'' \<inter> selector_symbols = {}
   \<and> set ''x'' \<inter> selector_symbols = {} \<and> set ''href'' \<inter> selector_symbols = {}
   \<and> set ''focus'' \<inter> selector_symbols = {} \<and> set ''before'' \<inter> selector_symbols = {}
   \<and> fst (call (call (call (call (call (call
           (cssSelectorBuilder_element ''a'' [])
           (MyCssSelector_id ''main'')) (MyCssSelector_class ''x'')) (MyCssSelector_attr ''href''))
           (MyCssSelector_pseudoClass ''focus'')) (MyCssSelector_pseudoElement ''before''))
           MyCssSelector_stringify)
         = Inr ''a#main.x[href]:focus::before''"
proof -
  have plain: "set ''a'' \<inter> selector_symbols = {}" "set ''main'' \<inter> selector_symbols = {}"
    "set ''x'' \<inter> selector_symbols = {}" "set ''href'' \<inter> selector_symbols = {}"
    "set ''focus'' \<inter> selector_symbols = {}" "set ''before'' \<inter> selector_symbols = {}"
    by (simp_all add: selector_symbols_def)
  from canonical_order_chain [OF plain, of "[]"] plain show ?thesis by simp
qed

section \<open>combine\<close>

lemma stringify_length: "length (snd (MyCssSelector_stringify this h)) = length h"
  by (simp add: MyCssSelector_stringify_def)

lemma stringify_returns:
  "this < length h \<Longrightarrow> \<exists>t h1. MyCssSelector_stringify this h = (Inr t, h1)"
  by (simp add: MyCssSelector_stringify_def)

lemma stringify_Inr_valid:
  "MyCssSelector_stringify this h = (Inr t, h1) \<Longrightarrow> this < length h \<and> length h1 = length h"
  by (auto simp: MyCssSelector_stringify_def split: if_splits)

text \<open>Objects allocated later do not change what \<^verbatim>\<open>stringify\<close> does to an earlier one.\<close>

lemma stringify_append:
  "this < length h \<Longrightarrow>
     MyCssSelector_stringify this (h @ ys) =
       (fst (MyCssSelector_stringify this h), snd (MyCssSelector_stringify this h) @ ys)"
  by (simp add: MyCssSelector_stringify_def nth_append list_update_append)

lemma stringify_combinedSelectors:
  "combinedSelectors (snd (MyCssSelector_stringify this h) ! other) = combinedSelectors (h ! other)"
  by (cases "this = other") (simp_all add: MyCssSelector_stringify_def)

lemma stringify_chain_stays_empty:
  "other < length h \<Longrightarrow> selectorsChain (h ! other) = [] \<Longrightarrow>
     selectorsChain (snd (MyCssSelector_stringify this h) ! other) = []"
  by (cases "this = other") (simp_all add: MyCssSelector_stringify_def)

lemma stringify_consumes:
  "this < length h \<Longrightarrow> combinedSelectors (h ! this) = [] \<Longrightarrow>
     selectorsChain (snd (MyCssSelector_stringify this h) ! this) = []"
  by (simp add: MyCssSelector_stringify_def)

lemma join_three: "join sep [a, b, c] = a @ sep @ b @ sep @ c"
  by simp

text \<open>
  The method on any receiver: the two operands are rendered, the left one first, and the
  three strings are pushed onto the receiver's buffer, after what it holds. Rendering the
  operands does not change any buffer, so what the receiver's buffer holds at the push is
  what it held before the call.
\<close>

lemma combine_pushes:
  assumes "this < length h"
    and "MyCssSelector_stringify selector1 h = (Inr l, h1)"
    and "MyCssSelector_stringify selector2 h1 = (Inr r, h2)"
  shows "MyCssSelector_combine selector1 c selector2 this h =
           (Inr this, h2[this := (h2 ! this)\<lparr>combinedSelectors :=
                           combinedSelectors (h ! this) @ [l, c, r]\<rparr>])"
proof -
  have "combinedSelectors (h1 ! this) = combinedSelectors (h ! this)"
    using stringify_combinedSelectors [of selector1 h this] assms(2) by simp
  then have "combinedSelectors (h2 ! this) = combinedSelectors (h ! this)"
    using stringify_combinedSelectors [of selector2 h1 this] assms(3) by simp
  with assms show ?thesis
    by (simp add: MyCssSelector_combine_def)
qed

lemma stringify_after_combine:
  assumes "this < length h"
    and "MyCssSelector_stringify selector1 h = (Inr l, h1)"
    and "MyCssSelector_stringify selector2 h1 = (Inr r, h2)"
  shows "fst (MyCssSelector_stringify this
           (snd (MyCssSelector_combine selector1 c selector2 this h)))
         = Inr (join '' '' (combinedSelectors (h ! this) @ [l, c, r]))"
proof -
  have "length h2 = length h"
    using stringify_Inr_valid [OF assms(2)] stringify_Inr_valid [OF assms(3)] by simp
  with assms(1) show ?thesis
    by (simp add: combine_pushes [OF assms] MyCssSelector_stringify_def)
qed

lemma facade_combine:
  assumes "MyCssSelector_stringify selector1 h = (Inr l, h1)"
    and "MyCssSelector_stringify selector2 h1 = (Inr r, h2)"
  shows "cssSelectorBuilder_combine selector1 c selector2 h =
           (Inr (length h), h2 @ [\<lparr>selectorsChain = [], combinedSelectors = [l, c, r]\<rparr>])"
proof -
  let ?new = "\<lparr>selectorsChain = [], combinedSelectors = []\<rparr>"
  from stringify_Inr_valid [OF assms(1)]
  have v1: "selector1 < length h" and len1: "length h1 = length h"
    by simp_all
  from stringify_Inr_valid [OF assms(2)]
  have v2: "selector2 < length h1" and len2: "length h2 = length h1"
    by simp_all
  from v1 assms(1)
  have s1: "MyCssSelector_stringify selector1 (h @ [?new]) = (Inr l, h1 @ [?new])"
    by (simp add: stringify_append)
  from v2 assms(2)
  have s2: "MyCssSelector_stringify selector2 (h1 @ [?new]) = (Inr r, h2 @ [?new])"
    by (simp add: stringify_append)
  show ?thesis
    using combine_pushes [of "length h" "h @ [?new]", OF _ s1 s2, of c] len1 len2
    by (simp add: cssSelectorBuilder_combine_def new_MyCssSelector_def nth_append
        list_update_append)
qed

lemma combine_clears_selector1:
  assumes "this < length h" and "selector1 < length h" and "selector2 < length h"
    and "this \<noteq> selector1" and "combinedSelectors (h ! selector1) = []"
  shows "fst (MyCssSelector_stringify selector1
           (snd (MyCssSelector_combine selector1 c selector2 this h))) = Inr []"
proof -
  obtain l h1 where s1: "MyCssSelector_stringify selector1 h = (Inr l, h1)"
    using stringify_returns [OF assms(2)] by blast
  then have len1: "length h1 = length h"
    using stringify_length [of selector1 h] by simp
  obtain r h2 where s2: "MyCssSelector_stringify selector2 h1 = (Inr r, h2)"
    using stringify_returns [of selector2 h1] assms(3) len1 by auto
  then have len2: "length h2 = length h"
    using stringify_length [of selector2 h1] len1 by simp
  have "selectorsChain (h1 ! selector1) = []"
    using stringify_consumes [OF assms(2,5)] s1 by simp
  then have chain: "selectorsChain (h2 ! selector1) = []"
    using stringify_chain_stays_empty [of selector1 h1 selector2] s2 assms(2) len1 by simp
  have "combinedSelectors (h1 ! selector1) = []"
    using stringify_combinedSelectors [of selector1 h selector1] s1 assms(5) by simp
  then have comb: "combinedSelectors (h2 ! selector1) = []"
    using stringify_combinedSelectors [of selector2 h1 selector1] s2 by simp
  show ?thesis
    using combine_pushes [OF assms(1) s1 s2, of c] assms(2,4) len2 chain comb
    by (simp add: MyCssSelector_stringify_def)
qed

text \<open>
  Claim C3, as the code has it. For all builders \<open>left\<close> and \<open>right\<close> (also the same
  one) and every string \<open>c\<close>, whatever it is, \<^verbatim>\<open>combine(left, c, right)\<close> renders
  \<open>left\<close>, then \<open>right\<close>, and pushes the two rendered strings with \<open>c\<close> between them
  onto the combined-output buffer of its receiver, after what the buffer holds; a
  subsequent \<^verbatim>\<open>stringify()\<close> on the receiver returns the whole buffer joined by single
  spaces. When the receiver's buffer was empty, the buffer is exactly the three strings
  and \<^verbatim>\<open>stringify()\<close> returns them joined by single spaces. That is the case of
  \<^verbatim>\<open>combine\<close> of the facade, whose receiver is a new builder. The witness is the
  selector \<^verbatim>\<open>div#main + table#data\<close> of the specification.
\<close>

theorem combine_pushes_three_tokens:
  assumes "MyCssSelector_stringify left h = (Inr l, h1)"
    and "MyCssSelector_stringify right h1 = (Inr r, h2)"
  shows "(this < length h \<longrightarrow>
            MyCssSelector_combine left c right this h =
              (Inr this, h2[this := (h2 ! this)\<lparr>combinedSelectors :=
                              combinedSelectors (h ! this) @ [l, c, r]\<rparr>])
            \<and> fst (MyCssSelector_stringify this
                  (snd (MyCssSelector_combine left c right this h)))
                = Inr (join '' '' (combinedSelectors (h ! this) @ [l, c, r])))
       \<and> (this < length h \<and> combinedSelectors (h ! this) = [] \<longrightarrow>
            combinedSelectors (snd (MyCssSelector_combine left c right this h) ! this) = [l, c, r]
            \<and> fst (MyCssSelector_stringify this
                  (snd (MyCssSelector_combine left c right this h)))
                = Inr (l @ '' '' @ c @ '' '' @ r))
       \<and> cssSelectorBuilder_combine left c right h =
            (Inr (length h), h2 @ [\<lparr>selectorsChain = [], combinedSelectors = [l, c, r]\<rparr>])
       \<and> fst (MyCssSelector_stringify (length h)
              (snd (cssSelectorBuilder_combine left c right h)))
            = Inr (l @ '' '' @ c @ '' '' @ r)"
proof (intro conjI impI)
  assume "this < length h"
  then show "MyCssSelector_combine left c right this h =
      (Inr this, h2[this := (h2 ! this)\<lparr>combinedSelectors :=
                      combinedSelectors (h ! this) @ [l, c, r]\<rparr>])"
    by (rule combine_pushes [OF _ assms])
next
  assume "this < length h"
  then show "fst (MyCssSelector_stringify this (snd (MyCssSelector_combine left c right this h)))
      = Inr (join '' '' (combinedSelectors (h ! this) @ [l, c, r]))"
    by (rule stringify_after_combine [OF _ assms])
next
  assume a: "this < length h \<and> combinedSelectors (h ! this) = []"
  have "length h2 = length h"
    using stringify_Inr_valid [OF assms(1)] stringify_Inr_valid [OF assms(2)] by simp
  with a show "combinedSelectors (snd (MyCssSelector_combine left c right this h) ! this)
      = [l, c, r]"
    by (simp add: combine_pushes [OF _ assms])
next
  assume a: "this < length h \<and> combinedSelectors (h ! this) = []"
  then show "fst (MyCssSelector_stringify this (snd (MyCssSelector_combine left c right this h)))
      = Inr (l @ '' '' @ c @ '' '' @ r)"
    using stringify_after_combine [OF _ assms, of this c] by simp
next
  show "cssSelectorBuilder_combine left c right h =
      (Inr (length h), h2 @ [\<lparr>selectorsChain = [], combinedSelectors = [l, c, r]\<rparr>])"
    by (rule facade_combine [OF assms])
next
  have "length h2 = length h"
    using stringify_Inr_valid [OF assms(1)] stringify_Inr_valid [OF assms(2)] by simp
  then show "fst (MyCssSelector_stringify (length h)
      (snd (cssSelectorBuilder_combine left c right h))) = Inr (l @ '' '' @ c @ '' '' @ r)"
    by (simp add: facade_combine [OF assms] MyCssSelector_stringify_def nth_append)
qed

theorem combine_pushes_three_tokens_witness:
  "call (cssSelectorBuilder_element ''div'' []) (MyCssSelector_id ''main'')
     = (Inr 0, [\<lparr>selectorsChain = [''div'', ''#main''], combinedSelectors = []\<rparr>])
   \<and> call (cssSelectorBuilder_element ''table''
            [\<lparr>selectorsChain = [''div'', ''#main''], combinedSelectors = []\<rparr>])
         (MyCssSelector_id ''data'')
     = (Inr 1, [\<lparr>selectorsChain = [''div'', ''#main''], combinedSelectors = []\<rparr>,
                \<lparr>selectorsChain = [''table'', ''#data''], combinedSelectors = []\<rparr>])
   \<and> MyCssSelector_stringify 0
        [\<lparr>selectorsChain = [''div'', ''#main''], combinedSelectors = []\<rparr>,
         \<lparr>selectorsChain = [''table'', ''#data''], combinedSelectors = []\<rparr>]
     = (Inr ''div#main'',
        [\<lparr>selectorsChain = [], combinedSelectors = []\<rparr>,
         \<lparr>selectorsChain = [''table'', ''#data''], combinedSelectors = []\<rparr>])
   \<and> MyCssSelector_stringify 1
        [\<lparr>selectorsChain = [], combinedSelectors = []\<rparr>,
         \<lparr>selectorsChain = [''table'', ''#data''], combinedSelectors = []\<rparr>]
     = (Inr ''table#data'',
        [\<lparr>selectorsChain = [], combinedSelectors = []\<rparr>,
         \<lparr>selectorsChain = [], combinedSelectors = []\<rparr>])
   \<and> cssSelectorBuilder_combine 0 ''+'' 1
        [\<lparr>selectorsChain = [''div'', ''#main''], combinedSelectors = []\<rparr>,
         \<lparr>selectorsChain = [''table'', ''#data''], combinedSelectors = []\<rparr>]
     = (Inr 2,
        [\<lparr>selectorsChain = [], combinedSelectors = []\<rparr>,
         \<lparr>selectorsChain = [], combinedSelectors = []\<rparr>,
         \<lparr>selectorsChain = [], combinedSelectors = [''div#main'', ''+'', ''table#data'']\<rparr>])
   \<and> fst (MyCssSelector_stringify 2
        (snd (cssSelectorBuilder_combine 0 ''+'' 1
           [\<lparr>selectorsChain = [''div'', ''#main''], combinedSelectors = []\<rparr>,
            \<lparr>selectorsChain = [''table'', ''#data''], combinedSelectors = []\<rparr>])))
     = Inr ''div#main + table#data''
   \<and> (2::nat) < length
        [\<lparr>selectorsChain = [''div'', ''#main''], combinedSelectors = []\<rparr>,
         \<lparr>selectorsChain = [''table'', ''#data''], combinedSelectors = []\<rparr>,
         \<lparr>selectorsChain = [], combinedSelectors = []\<rparr>]
   \<and> combinedSelectors
        ([\<lparr>selectorsChain = [''div'', ''#main''], combinedSelectors = []\<rparr>,
          \<lparr>selectorsChain = [''table'', ''#data''], combinedSelectors = []\<rparr>,
          \<lparr>selectorsChain = [], combinedSelectors = []\<rparr>] ! 2) = []
   \<and> MyCssSelector_combine 0 ''+'' 1 2
        [\<lparr>selectorsChain = [''div'', ''#main''], combinedSelectors = []\<rparr>,
         \<lparr>selectorsChain = [''table'', ''#data''], combinedSelectors = []\<rparr>,
         \<lparr>selectorsChain = [], combinedSelectors = []\<rparr>]
     = (Inr 2,
        [\<lparr>selectorsChain = [], combinedSelectors = []\<rparr>,
         \<lparr>selectorsChain = [], combinedSelectors = []\<rparr>,
         \<lparr>selectorsChain = [], combinedSelectors = [''div#main'', ''+'', ''table#data'']\<rparr>])
   \<and> fst (MyCssSelector_stringify 2
        (snd (MyCssSelector_combine 0 ''+'' 1 2
           [\<lparr>selectorsChain = [''div'', ''#main''], combinedSelectors = []\<rparr>,
            \<lparr>selectorsChain = [''table'', ''#data''], combinedSelectors = []\<rparr>,
            \<lparr>selectorsChain = [], combinedSelectors = []\<rparr>])))
     = Inr ''div#main + table#data''"
proof -
  let ?new = "\<lparr>selectorsChain = [], combinedSelectors = []\<rparr>"
  let ?h = "[\<lparr>selectorsChain = [''div'', ''#main''], combinedSelectors = []\<rparr>,
             \<lparr>selectorsChain = [''table'', ''#data''], combinedSelectors = []\<rparr>]"
  let ?h1 = "[?new, \<lparr>selectorsChain = [''table'', ''#data''], combinedSelectors = []\<rparr>]"
  let ?h2 = "[?new, ?new]"
  have build: "call (cssSelectorBuilder_element ''div'' []) (MyCssSelector_id ''main'')
       = (Inr 0, [\<lparr>selectorsChain = [''div'', ''#main''], combinedSelectors = []\<rparr>])"
    "call (cssSelectorBuilder_element ''table''
            [\<lparr>selectorsChain = [''div'', ''#main''], combinedSelectors = []\<rparr>])
         (MyCssSelector_id ''data'') = (Inr 1, ?h)"
    by (simp_all add: facade_defs method_defs eval_defs)
  have l: "MyCssSelector_stringify 0 ?h = (Inr ''div#main'', ?h1)"
    by (simp add: MyCssSelector_stringify_def)
  have r: "MyCssSelector_stringify 1 ?h1 = (Inr ''table#data'', ?h2)"
    by (simp add: MyCssSelector_stringify_def)
  have l': "MyCssSelector_stringify 0 (?h @ [?new]) = (Inr ''div#main'', ?h1 @ [?new])"
    by (simp add: MyCssSelector_stringify_def)
  have r': "MyCssSelector_stringify 1 (?h1 @ [?new]) = (Inr ''table#data'', ?h2 @ [?new])"
    by (simp add: MyCssSelector_stringify_def)
  from combine_pushes_three_tokens [OF l r, of 0 "''+''"]
    combine_pushes_three_tokens [OF l' r', of 2 "''+''"] build l r
  show ?thesis
    by (simp add: MyCssSelector_stringify_def)
qed

text \<open>
  Claim C3 as stated fails when the receiver's buffer is not empty. After
  \<^verbatim>\<open>b = combine(div, '+', p)\<close> of the facade, \<^verbatim>\<open>b.combine(ul, '~', li)\<close> leaves six
  strings in the buffer of \<^verbatim>\<open>b\<close>, not the three of the second call, and
  \<^verbatim>\<open>b.stringify()\<close> returns all six joined.
\<close>

theorem combine_on_combined_receiver:
  "cssSelectorBuilder_combine 0 ''+'' 1
      [\<lparr>selectorsChain = [''div''], combinedSelectors = []\<rparr>,
       \<lparr>selectorsChain = [''p''], combinedSelectors = []\<rparr>,
       \<lparr>selectorsChain = [''ul''], combinedSelectors = []\<rparr>,
       \<lparr>selectorsChain = [''li''], combinedSelectors = []\<rparr>]
     = (Inr 4,
        [\<lparr>selectorsChain = [], combinedSelectors = []\<rparr>,
         \<lparr>selectorsChain = [], combinedSelectors = []\<rparr>,
         \<lparr>selectorsChain = [''ul''], combinedSelectors = []\<rparr>,
         \<lparr>selectorsChain = [''li''], combinedSelectors = []\<rparr>,
         \<lparr>selectorsChain = [], combinedSelectors = [''div'', ''+'', ''p'']\<rparr>])
   \<and> MyCssSelector_combine 2 ''~'' 3 4
        [\<lparr>selectorsChain = [], combinedSelectors = []\<rparr>,
         \<lparr>selectorsChain = [], combinedSelectors = []\<rparr>,
         \<lparr>selectorsChain = [''ul''], combinedSelectors = []\<rparr>,
         \<lparr>selectorsChain = [''li''], combinedSelectors = []\<rparr>,
         \<lparr>selectorsChain = [], combinedSelectors = [''div'', ''+'', ''p'']\<rparr>]
     = (Inr 4,
        [\<lparr>selectorsChain = [], combinedSelectors = []\<rparr>,
         \<lparr>selectorsChain = [], combinedSelectors = []\<rparr>,
         \<lparr>selectorsChain = [], combinedSelectors = []\<rparr>,
         \<lparr>selectorsChain = [], combinedSelectors = []\<rparr>,
         \<lparr>selectorsChain = [],
          combinedSelectors = [''div'', ''+'', ''p'', ''ul'', ''~'', ''li'']\<rparr>])
   \<and> [''div'', ''+'', ''p'', ''ul'', ''~'', ''li''] \<noteq> [''ul'', ''~'', ''li'']
   \<and> fst (MyCssSelector_stringify 4
        [\<lparr>selectorsChain = [], combinedSelectors = []\<rparr>,
         \<lparr>selectorsChain = [], combinedSelectors = []\<rparr>,
         \<lparr>selectorsChain = [], combinedSelectors = []\<rparr>,
         \<lparr>selectorsChain = [], combinedSelectors = []\<rparr>,
         \<lparr>selectorsChain = [],
          combinedSelectors = [''div'', ''+'', ''p'', ''ul'', ''~'', ''li'']\<rparr>])
     = Inr ''div + p ul ~ li''
   \<and> ''div + p ul ~ li'' \<noteq> ''ul ~ li''"
  by (simp add: cssSelectorBuilder_combine_def new_MyCssSelector_def MyCssSelector_combine_def
      MyCssSelector_stringify_def)

text \<open>
  Claim C10, as the code has it. \<^verbatim>\<open>combine\<close> consumes its left operand: for a builder
  \<open>s1\<close> with a non-empty chain and an empty combined-output buffer, after
  \<^verbatim>\<open>combine(s1, c, s2)\<close> on any receiver other than \<open>s1\<close>, with any \<open>c\<close> and any
  builder \<open>s2\<close> (\<open>s1\<close> itself included), \<^verbatim>\<open>s1.stringify()\<close> returns the empty string.
  The receiver of \<^verbatim>\<open>combine\<close> of the facade is a new builder, so it is never \<open>s1\<close>.
\<close>

theorem combine_consumes_operand_of_other_receiver:
  assumes "s1 < length h" and "s2 < length h"
    and "selectorsChain (h ! s1) \<noteq> []" and "combinedSelectors (h ! s1) = []"
  shows "(this < length h \<and> this \<noteq> s1 \<longrightarrow>
            fst (MyCssSelector_stringify s1 (snd (MyCssSelector_combine s1 c s2 this h)))
              = Inr [])
       \<and> fst (MyCssSelector_stringify s1 (snd (cssSelectorBuilder_combine s1 c s2 h))) = Inr []"
proof (intro conjI impI)
  assume "this < length h \<and> this \<noteq> s1"
  then show "fst (MyCssSelector_stringify s1 (snd (MyCssSelector_combine s1 c s2 this h)))
      = Inr []"
    using combine_clears_selector1 [of this h s1 s2 c] assms(1,2,4) by simp
next
  show "fst (MyCssSelector_stringify s1 (snd (cssSelectorBuilder_combine s1 c s2 h))) = Inr []"
    using assms(1,2,4)
      combine_clears_selector1
        [of "length h" "h @ [\<lparr>selectorsChain = [], combinedSelectors = []\<rparr>]" s1 s2 c]
    by (simp add: cssSelectorBuilder_combine_def new_MyCssSelector_def nth_append)
qed

theorem combine_consumes_operand_of_other_receiver_witness:
  "(0::nat) < length [\<lparr>selectorsChain = [''div'', ''#main''], combinedSelectors = []\<rparr>,
                      \<lparr>selectorsChain = [''table'', ''#data''], combinedSelectors = []\<rparr>,
                      \<lparr>selectorsChain = [], combinedSelectors = []\<rparr>]
   \<and> (1::nat) < length [\<lparr>selectorsChain = [''div'', ''#main''], combinedSelectors = []\<rparr>,
                        \<lparr>selectorsChain = [''table'', ''#data''], combinedSelectors = []\<rparr>,
                        \<lparr>selectorsChain = [], combinedSelectors = []\<rparr>]
   \<and> (2::nat) < length [\<lparr>selectorsChain = [''div'', ''#main''], combinedSelectors = []\<rparr>,
                        \<lparr>selectorsChain = [''table'', ''#data''], combinedSelectors = []\<rparr>,
                        \<lparr>selectorsChain = [], combinedSelectors = []\<rparr>]
   \<and> (2::nat) \<noteq> 0
   \<and> selectorsChain ([\<lparr>selectorsChain = [''div'', ''#main''], combinedSelectors = []\<rparr>,
                       \<lparr>selectorsChain = [''table'', ''#data''], combinedSelectors = []\<rparr>,
                       \<lparr>selectorsChain = [], combinedSelectors = []\<rparr>] ! 0) \<noteq> []
   \<and> combinedSelectors ([\<lparr>selectorsChain = [''div'', ''#main''], combinedSelectors = []\<rparr>,
                       \<lparr>selectorsChain = [''table'', ''#data''], combinedSelectors = []\<rparr>,
                       \<lparr>selectorsChain = [], combinedSelectors = []\<rparr>] ! 0) = []
   \<and> fst (MyCssSelector_stringify 0
        [\<lparr>selectorsChain = [''div'', ''#main''], combinedSelectors = []\<rparr>,
         \<lparr>selectorsChain = [''table'', ''#data''], combinedSelectors = []\<rparr>,
         \<lparr>selectorsChain = [], combinedSelectors = []\<rparr>])
     = Inr ''div#main''
   \<and> fst (MyCssSelector_stringify 0
        (snd (MyCssSelector_combine 0 ''+'' 1 2
           [\<lparr>selectorsChain = [''div'', ''#main''], combinedSelectors = []\<rparr>,
            \<lparr>selectorsChain = [''table'', ''#data''], combinedSelectors = []\<rparr>,
            \<lparr>selectorsChain = [], combinedSelectors = []\<rparr>])))
     = Inr []
   \<and> fst (MyCssSelector_stringify 0
        (snd (cssSelectorBuilder_combine 0 ''+'' 1
           [\<lparr>selectorsChain = [''div'', ''#main''], combinedSelectors = []\<rparr>,
            \<lparr>selectorsChain = [''table'', ''#data''], combinedSelectors = []\<rparr>,
            \<lparr>selectorsChain = [], combinedSelectors = []\<rparr>])))
     = Inr []"
  using combine_consumes_operand_of_other_receiver
    [of 0 "[\<lparr>selectorsChain = [''div'', ''#main''], combinedSelectors = []\<rparr>,
            \<lparr>selectorsChain = [''table'', ''#data''], combinedSelectors = []\<rparr>,
            \<lparr>selectorsChain = [], combinedSelectors = []\<rparr>]" 1 2 "''+''"]
  by (simp add: MyCssSelector_stringify_def)

text \<open>
  Claim C10 as stated fails when the receiver is \<open>s1\<close> itself. \<^verbatim>\<open>s1.combine(s1, '+', s2)\<close>
  renders \<open>s1\<close>, which empties its chain, and then pushes the three strings onto the
  buffer of \<open>s1\<close>; \<^verbatim>\<open>s1.stringify()\<close> afterwards returns that buffer joined, not the
  empty string.
\<close>

theorem combine_on_own_operand:
  "selectorsChain ([\<lparr>selectorsChain = [''div'', ''#main''], combinedSelectors = []\<rparr>,
                    \<lparr>selectorsChain = [''table'', ''#data''], combinedSelectors = []\<rparr>] ! 0) \<noteq> []
   \<and> combinedSelectors ([\<lparr>selectorsChain = [''div'', ''#main''], combinedSelectors = []\<rparr>,
                    \<lparr>selectorsChain = [''table'', ''#data''], combinedSelectors = []\<rparr>] ! 0) = []
   \<and> MyCssSelector_combine 0 ''+'' 1 0
        [\<lparr>selectorsChain = [''div'', ''#main''], combinedSelectors = []\<rparr>,
         \<lparr>selectorsChain = [''table'', ''#data''], combinedSelectors = []\<rparr>]
     = (Inr 0,
        [\<lparr>selectorsChain = [], combinedSelectors = [''div#main'', ''+'', ''table#data'']\<rparr>,
         \<lparr>selectorsChain = [], combinedSelectors = []\<rparr>])
   \<and> fst (MyCssSelector_stringify 0
        [\<lparr>selectorsChain = [], combinedSelectors = [''div#main'', ''+'', ''table#data'']\<rparr>,
         \<lparr>selectorsChain = [], combinedSelectors = []\<rparr>])
     = Inr ''div#main + table#data''
   \<and> ''div#main + table#data'' \<noteq> []"
  by (simp add: MyCssSelector_combine_def MyCssSelector_stringify_def)

end
